theory Spec2Isabelle
  imports Complex_Main
begin

section \<open>Colorectal-cancer risk pipeline of \<open>app.py\<close>\<close>

text \<open>
  The embedding follows \<open>src/app.py\<close> function by function. Python's \<open>float\<close> is
  modelled by \<open>real\<close>: decimal literals denote their exact decimal value, \<open>math.exp\<close>
  is the real exponential, and no rounding, overflow or NaN is modelled. The two CSV
  tables the module reads at import time are not part of the sources; they enter every
  function that reads them as a parameter.

  One effect of double precision is visible in the code and not in exact arithmetic:
  \<open>1 - math.exp(-H)\<close> evaluates to exactly \<open>1.0\<close> once \<open>exp(-H)\<close> falls below \<open>2 ** -54\<close>
  (\<open>H\<close> above about 37.4, and so at the cap \<open>H = 50\<close>), whereas \<open>1 - exp (- H) < 1\<close> for
  every real \<open>H\<close>. The guard \<open>if p_now >= 1.0: return 0.0\<close> of \<open>conditional_risk\<close> is
  therefore taken by the code and never by the model. The numbered theorems on
  \<open>personalized_risk\<close> and \<open>conditional_risk\<close> state only what holds on both readings:
  bounds that include the value 1, monotonicity that is not strict, and the values at the
  cap, where the guarded branch and the quotient agree.
\<close>

subsection \<open>Part 1: Paterson model constants\<close>

definition N :: real where "N = 10 ^ 8"
definition u :: real where "u = 1.25 / 10 ^ 8"

definition n_APC :: real where "n_APC = 604"
definition n_TP53 :: real where "n_TP53 = 73"
definition n_KRAS :: real where "n_KRAS = 20"

definition r_APC :: real where "r_APC = n_APC * u"
definition r_TP53 :: real where "r_TP53 = n_TP53 * u"
definition r_KRAS :: real where "r_KRAS = n_KRAS * u"

definition r_LOH :: real where "r_LOH = 1.36 / 10 ^ 4"

definition b1 :: real where "b1 = 0.20"
definition b2 :: real where "b2 = 0.07"
definition b12 :: real where "b12 = b1 + b2"

definition c1 :: real where "c1 = 5.88"
definition c2 :: real where "c2 = 3.6"
definition c :: real where "c = c1 * c2"

subsection \<open>Part 2: baseline hazard\<close>

text \<open>The local \<open>A\<close> of \<open>baseline_hazard\<close>; it does not depend on the age.\<close>

definition A :: real where
  "A = c * N * r_APC * r_TP53 * r_KRAS * (r_LOH ^ 2)
       * (1 / (b12 ^ 3 * (b12 - b1)) +
          1 / (b12 ^ 3 * (b12 - b2)) +
          1 / (b12 ^ 2 * (b12 - b2) ^ 2))"

definition baseline_hazard :: "real \<Rightarrow> real" where
  "baseline_hazard age =
     (let H0 = A * (age ^ 2) * exp (b12 * age)
      in if H0 > 50 then 50 else H0)"

definition paterson_baseline_risk :: "real \<Rightarrow> real" where
  "paterson_baseline_risk age = (let H0 = baseline_hazard age in 1 - exp (- H0))"

subsection \<open>Part 4: personalized and conditional risk\<close>

definition personalized_risk :: "real \<Rightarrow> real \<Rightarrow> real" where
  "personalized_risk age alpha =
     (let H0 = baseline_hazard age;
          H = alpha * H0;
          H = (if H > 50 then 50 else H)
      in 1 - exp (- H))"

definition conditional_risk :: "real \<Rightarrow> real \<Rightarrow> real \<Rightarrow> real" where
  "conditional_risk age_now age_future alpha =
     (let p_now = personalized_risk age_now alpha;
          p_future = personalized_risk age_future alpha
      in if p_now \<ge> 1 then 0 else (p_future - p_now) / (1 - p_now))"

subsection \<open>Errors\<close>

text \<open>
  The exceptions the modelled functions can raise. \<open>ValueError\<close> is what
  \<open>get_seer_incidence\<close> raises; \<open>KeyError\<close> is a failed \<open>coeff[...]\<close> or
  \<open>clinical_scale[...]\<close> lookup; \<open>UnboundLocalError\<close> is what \<open>return mid\<close> after
  the loop of \<open>calibrate_log_alpha\<close> would raise had the loop body never run.
\<close>

datatype py_error = ValueError string | KeyError string | UnboundLocalError string

subsection \<open>Part 3: coefficients and the personalised multiplier\<close>

definition clinical_scale :: "string \<rightharpoonup> real" where
  "clinical_scale = map_of
     [(''TP53_mut'', 0.5),
      (''APC_mut'', 1.0),
      (''MMR_defect'', 1.0),
      (''KRAS_mut'', 0.3),
      (''BMI'', 0.2),
      (''Sex_bin'', 0.1)]"

text \<open>
  \<open>norm_coeff = coeff.abs() / ref_coef\<close>: a series over the index of \<open>coeff\<close>. The
  coefficient series \<open>coeff\<close> (read from a CSV file at import time) is a parameter.
\<close>

definition norm_coeff :: "(string \<rightharpoonup> real) \<Rightarrow> real \<Rightarrow> (string \<rightharpoonup> real)" where
  "norm_coeff coeff ref_coef = (\<lambda>feature. map_option (\<lambda>v. \<bar>v\<bar> / ref_coef) (coeff feature))"

text \<open>
  The \<open>for feature, value in patient_features.items()\<close> loop, threading \<open>log_alpha\<close>.
  The dictionary is an association list in iteration order; \<open>clinical_scale[feature]\<close>
  is evaluated before \<open>norm_coeff[feature]\<close> and raises \<open>KeyError\<close> when absent.
\<close>

fun alpha_loop :: "(string \<rightharpoonup> real) \<Rightarrow> (string \<times> real) list \<Rightarrow> real \<Rightarrow> py_error + real" where
  "alpha_loop nc [] log_alpha = Inr log_alpha"
| "alpha_loop nc ((feature, value) # rest) log_alpha =
     (case nc feature of
        None \<Rightarrow> alpha_loop nc rest log_alpha
      | Some w \<Rightarrow>
          if feature = ''BMI'' then
            (if value > 25 then
               (case clinical_scale feature of
                  None \<Rightarrow> Inl (KeyError feature)
                | Some s \<Rightarrow> alpha_loop nc rest (log_alpha + min (s * w * (value - 25)) 1.0))
             else alpha_loop nc rest log_alpha)
          else if feature = ''Sex_bin'' then
            (if value = 0 then
               (case clinical_scale feature of
                  None \<Rightarrow> Inl (KeyError feature)
                | Some s \<Rightarrow> alpha_loop nc rest (log_alpha - min (s * w) 0.3))
             else alpha_loop nc rest log_alpha)
          else
            (case clinical_scale feature of
               None \<Rightarrow> Inl (KeyError feature)
             | Some s \<Rightarrow> alpha_loop nc rest (log_alpha + min (s * w * value) 1.0)))"

definition compute_alpha ::
  "(string \<rightharpoonup> real) \<Rightarrow> (string \<times> real) list \<Rightarrow> real \<Rightarrow> py_error + real" where
  "compute_alpha coeff patient_features log_alpha_base =
     (case coeff ''APC_mut'' of
        None \<Rightarrow> Inl (KeyError ''APC_mut'')
      | Some ref_coef \<Rightarrow>
          (case alpha_loop (norm_coeff coeff ref_coef) patient_features log_alpha_base of
             Inl e \<Rightarrow> Inl e
           | Inr log_alpha \<Rightarrow>
               (let alpha = exp log_alpha in Inr (max (min alpha 5.0) 0.01))))"

subsection \<open>Part 5: incidence table and calibration\<close>

text \<open>
  A row of \<open>seer_df\<close>. The table file is not part of the sources, so the label
  \<open>Age_Group\<close> is kept as the pair of integers that
  \<open>map(int, row["Age_Group"].split("-"))\<close> yields; the parse itself is not modelled.
\<close>

record seer_row =
  Age_Group :: "int \<times> int"
  Male_Rate :: real
  Female_Rate :: real

fun get_seer_incidence :: "seer_row list \<Rightarrow> real \<Rightarrow> int \<Rightarrow> py_error + real" where
  "get_seer_incidence [] age sex_bin = Inl (ValueError ''Age not covered in SEER table'')"
| "get_seer_incidence (row # rest) age sex_bin =
     (case Age_Group row of (start, stop) \<Rightarrow>
        if of_int start \<le> age \<and> age \<le> of_int stop
        then Inr (if sex_bin = 1 then Male_Rate row else Female_Rate row)
        else get_seer_incidence rest age sex_bin)"

text \<open>
  The \<open>for _ in range(n)\<close> loop of \<open>calibrate_log_alpha\<close> with its state \<open>low\<close>,
  \<open>high\<close> and \<open>mid\<close>; \<open>mid\<close> is unbound (\<open>None\<close>) until the body has run once. The
  result is \<open>Inl m\<close> for the \<open>return mid\<close> inside the loop and \<open>Inr\<close> of the final
  state when the range is exhausted.
\<close>

fun bisection_loop ::
  "nat \<Rightarrow> real \<Rightarrow> real \<Rightarrow> real \<Rightarrow> real \<Rightarrow> real option \<Rightarrow> real + (real \<times> real \<times> real option)" where
  "bisection_loop 0 age target_5yr low high mid = Inr (low, high, mid)"
| "bisection_loop (Suc n) age target_5yr low high mid0 =
     (let mid = (low + high) / 2;
          alpha = exp mid;
          model_5yr = conditional_risk age (age + 5) alpha
      in if \<bar>model_5yr - target_5yr\<bar> < 1 / 10 ^ 4 then Inl mid
         else if model_5yr < target_5yr then bisection_loop n age target_5yr mid high (Some mid)
         else bisection_loop n age target_5yr low mid (Some mid))"

definition calibrate_log_alpha :: "seer_row list \<Rightarrow> real \<Rightarrow> int \<Rightarrow> py_error + real" where
  "calibrate_log_alpha seer_df age sex_bin =
     (case get_seer_incidence seer_df age sex_bin of
        Inl e \<Rightarrow> Inl e
      | Inr incidence \<Rightarrow>
          (let target_5yr = 1 - exp (- 5 * incidence / 100000)
           in case bisection_loop 100 age target_5yr (- 5) 2 None of
                Inl mid \<Rightarrow> Inr mid
              | Inr (low, high, Some mid) \<Rightarrow> Inr mid
              | Inr (low, high, None) \<Rightarrow> Inl (UnboundLocalError ''mid'')))"

subsection \<open>Part 8: the \<open>/predict\<close> handler\<close>

text \<open>
  \<open>str.lower\<close> on the ASCII letters; other bytes are left alone. A string lowers to
  \<open>"male"\<close> in Python exactly when it does so here, since no character outside ASCII
  lowers to one of the letters m, a, l, e.
\<close>

definition lower_char :: "char \<Rightarrow> char" where
  "lower_char ch =
     (if 65 \<le> (of_char ch :: nat) \<and> (of_char ch :: nat) \<le> 90
      then char_of (of_char ch + 32 :: nat) else ch)"

definition lower :: "string \<Rightarrow> string" where
  "lower s = map lower_char s"

text \<open>
  \<open>round(x, ndigits)\<close> for a non-negative \<open>ndigits\<close>: the nearest multiple of
  \<open>10 ** -ndigits\<close>, a tie going to the even one.
\<close>

definition round_half_even :: "real \<Rightarrow> int" where
  "round_half_even y =
     (let f = \<lfloor>y\<rfloor>; d = y - of_int f
      in if d < 1 / 2 then f
         else if d > 1 / 2 then f + 1
         else if even f then f else f + 1)"

definition py_round :: "real \<Rightarrow> nat \<Rightarrow> real" where
  "py_round x ndigits = of_int (round_half_even (x * 10 ^ ndigits)) / 10 ^ ndigits"

record PatientInput =
  age :: real
  bmi :: real
  gender :: string
  kras :: int
  apc :: int
  tp53 :: int
  mmr :: int



subsection \<open>Auxiliary notions used in the statements\<close>

text \<open>The hazard before the cap of \<open>baseline_hazard\<close>, and the capped scaled hazard of
  \<open>personalized_risk\<close>.\<close>

definition raw_hazard :: "real \<Rightarrow> real" where
  "raw_hazard t = A * (t ^ 2) * exp (b12 * t)"

definition scaled_hazard :: "real \<Rightarrow> real \<Rightarrow> real" where
  "scaled_hazard t alpha = min (alpha * baseline_hazard t) 50"

text \<open>
  The incidence lookup as the specification words it: the first band, in table order,
  whose inclusive range contains the age; the male column for \<open>sex_bin = 1\<close>, the female
  column otherwise; a failure when there is no such band.
\<close>

definition band_contains :: "real \<Rightarrow> seer_row \<Rightarrow> bool" where
  "band_contains t row = (of_int (fst (Age_Group row)) \<le> t \<and> t \<le> of_int (snd (Age_Group row)))"

definition spec_lookup :: "seer_row list \<Rightarrow> real \<Rightarrow> int \<Rightarrow> py_error + real" where
  "spec_lookup table t sex_bin =
     (case find (band_contains t) table of
        None \<Rightarrow> Inl (ValueError ''Age not covered in SEER table'')
      | Some row \<Rightarrow> Inr (if sex_bin = 1 then Male_Rate row else Female_Rate row))"

text \<open>
  The calibration as the specification words it. \<open>spec_interval t target k\<close> is the search
  interval before iteration \<open>k\<close>: it starts as \<open>[-5, 2]\<close> and each step replaces the lower
  bound by the midpoint when the model risk at the midpoint is below the target, the upper
  bound otherwise. The answer is the midpoint of the first of the 100 iterations that
  meets the tolerance, and the midpoint of the last iteration when none does.
\<close>

definition model_5yr_at :: "real \<Rightarrow> real \<Rightarrow> real" where
  "model_5yr_at t x = conditional_risk t (t + 5) (exp x)"

fun spec_interval :: "real \<Rightarrow> real \<Rightarrow> nat \<Rightarrow> real \<times> real" where
  "spec_interval t target 0 = (- 5, 2)"
| "spec_interval t target (Suc k) =
     (case spec_interval t target k of (lo, hi) \<Rightarrow>
        if model_5yr_at t ((lo + hi) / 2) < target then ((lo + hi) / 2, hi) else (lo, (lo + hi) / 2))"

definition spec_mid :: "real \<Rightarrow> real \<Rightarrow> nat \<Rightarrow> real" where
  "spec_mid t target k = (case spec_interval t target k of (lo, hi) \<Rightarrow> (lo + hi) / 2)"

definition spec_hit :: "real \<Rightarrow> real \<Rightarrow> nat \<Rightarrow> bool" where
  "spec_hit t target k = (\<bar>model_5yr_at t (spec_mid t target k) - target\<bar> < 1 / 10 ^ 4)"

definition spec_target :: "real \<Rightarrow> real" where
  "spec_target rate = 1 - exp (- 5 * rate / 100000)"

definition spec_calibrate :: "real \<Rightarrow> real \<Rightarrow> real" where
  "spec_calibrate t rate =
     (case find (spec_hit t (spec_target rate)) [0 ..< 100] of
        Some k \<Rightarrow> spec_mid t (spec_target rate) k
      | None \<Rightarrow> spec_mid t (spec_target rate) 99)"

text \<open>
  The term one feature adds to \<open>log_alpha\<close> in the loop of \<open>compute_alpha\<close>: the body of
  the loop with the accumulator taken out.
\<close>

definition feature_term :: "(string \<rightharpoonup> real) \<Rightarrow> string \<Rightarrow> real \<Rightarrow> py_error + real" where
  "feature_term nc feature v =
     (case nc feature of
        None \<Rightarrow> Inr 0
      | Some w \<Rightarrow>
          if feature = ''BMI'' then
            (if v > 25 then
               (case clinical_scale feature of
                  None \<Rightarrow> Inl (KeyError feature)
                | Some s \<Rightarrow> Inr (min (s * w * (v - 25)) 1.0))
             else Inr 0)
          else if feature = ''Sex_bin'' then
            (if v = 0 then
               (case clinical_scale feature of
                  None \<Rightarrow> Inl (KeyError feature)
                | Some s \<Rightarrow> Inr (- min (s * w) 0.3))
             else Inr 0)
          else
            (case clinical_scale feature of
               None \<Rightarrow> Inl (KeyError feature)
             | Some s \<Rightarrow> Inr (min (s * w * v) 1.0)))"

subsection \<open>Concrete inputs for the examples\<close>

text \<open>A two-band incidence table covering the ages 20 to 100.\<close>

definition example_table :: "seer_row list" where
  "example_table =
     [\<lparr>Age_Group = (20, 49), Male_Rate = 10, Female_Rate = 8\<rparr>,
      \<lparr>Age_Group = (50, 100), Male_Rate = 120, Female_Rate = 90\<rparr>]"


definition coeff_neg_apc :: "string \<rightharpoonup> real" where
  "coeff_neg_apc = map_of
     [(''TP53_mut'', 0.8),
      (''APC_mut'', - 2.0),
      (''MMR_defect'', 1.5),
      (''KRAS_mut'', 0.6),
      (''BMI'', 0.05),
      (''Sex_bin'', 0.4)]"

definition features_with_sex :: "real \<Rightarrow> (string \<times> real) list" where
  "features_with_sex sex =
     [(''BMI'', 22), (''Sex_bin'', sex), (''KRAS_mut'', 0), (''TP53_mut'', 0),
      (''APC_mut'', 0), (''MMR_defect'', 0)]"


subsection \<open>The hazard constants\<close>

lemma b12_val: "b12 = 27 / 100"
  by (simp add: b12_def b1_def b2_def)

lemma A_val: "A = 22299529 / 250000000000000000000"
  unfolding A_def c_def c1_def c2_def N_def r_APC_def r_TP53_def r_KRAS_def r_LOH_def
    n_APC_def n_TP53_def n_KRAS_def u_def b12_def b1_def b2_def
  by (simp add: power2_eq_square power3_eq_cube)

lemma A_pos: "0 < A"
  by (simp add: A_val)

subsection \<open>Baseline hazard\<close>

lemma baseline_hazard_min: "baseline_hazard t = min (raw_hazard t) 50"
  by (simp add: baseline_hazard_def raw_hazard_def Let_def min_def)

lemma raw_hazard_nonneg: "0 \<le> raw_hazard t"
  using A_pos by (simp add: raw_hazard_def)

lemma raw_hazard_pos: "t \<noteq> 0 \<Longrightarrow> 0 < raw_hazard t"
  using A_pos by (simp add: raw_hazard_def)

lemma raw_hazard_mono:
  assumes "0 \<le> s" "s \<le> t"
  shows "raw_hazard s \<le> raw_hazard t"
proof -
  have sq: "s ^ 2 \<le> t ^ 2" using assms by (simp add: power_mono)
  have ex: "exp (b12 * s) \<le> exp (b12 * t)"
    using assms by (simp add: b12_val)
  have "s ^ 2 * exp (b12 * s) \<le> t ^ 2 * exp (b12 * t)"
    using sq ex by (intro mult_mono) simp_all
  then have "A * (s ^ 2 * exp (b12 * s)) \<le> A * (t ^ 2 * exp (b12 * t))"
    using A_pos by (intro mult_left_mono) simp_all
  then show ?thesis by (simp add: raw_hazard_def mult.assoc)
qed

lemma baseline_hazard_nonneg: "0 \<le> baseline_hazard t"
  using raw_hazard_nonneg [of t] by (simp add: baseline_hazard_min)

lemma baseline_hazard_le_50: "baseline_hazard t \<le> 50"
  by (simp add: baseline_hazard_min)

lemma baseline_hazard_mono: "0 \<le> s \<Longrightarrow> s \<le> t \<Longrightarrow> baseline_hazard s \<le> baseline_hazard t"
  using raw_hazard_mono [of s t] by (simp add: baseline_hazard_min min_def)

lemma baseline_hazard_pos: "t \<noteq> 0 \<Longrightarrow> 0 < baseline_hazard t"
  using raw_hazard_pos [of t] by (simp add: baseline_hazard_min)

lemma baseline_hazard_0: "baseline_hazard 0 = 0"
  by (simp add: baseline_hazard_def)

text \<open>
  C6. For every age \<open>t \<ge> 0\<close> the baseline hazard is non-negative, at most 50, no larger
  than the hazard at any later age, and the hazard at age 0 is 0.
\<close>

theorem baseline_hazard_bounds_mono:
  "0 \<le> t \<Longrightarrow>
     0 \<le> baseline_hazard t \<and> baseline_hazard t \<le> 50 \<and>
     (\<forall>t'. t \<le> t' \<longrightarrow> baseline_hazard t \<le> baseline_hazard t') \<and>
     baseline_hazard 0 = 0"
  by (simp add: baseline_hazard_nonneg baseline_hazard_le_50 baseline_hazard_mono baseline_hazard_0)

theorem baseline_hazard_bounds_mono_witness:
  "(0::real) \<le> 50 \<and> (50::real) \<le> 55 \<and> 0 \<le> baseline_hazard 50 \<and> baseline_hazard 50 \<le> 50 \<and>
   baseline_hazard 50 \<le> baseline_hazard 55 \<and> baseline_hazard 0 = 0"
  using baseline_hazard_bounds_mono [of 50] by simp

subsection \<open>Personalised and conditional risk in closed form\<close>

lemma personalized_risk_exp: "personalized_risk t alpha = 1 - exp (- scaled_hazard t alpha)"
  by (simp add: personalized_risk_def scaled_hazard_def Let_def min_def)

lemma scaled_hazard_nonneg: "0 \<le> alpha \<Longrightarrow> 0 \<le> scaled_hazard t alpha"
  using baseline_hazard_nonneg [of t] by (simp add: scaled_hazard_def)

lemma scaled_hazard_mono_alpha: "a1 \<le> a2 \<Longrightarrow> scaled_hazard t a1 \<le> scaled_hazard t a2"
  using baseline_hazard_nonneg [of t] mult_right_mono [of a1 a2 "baseline_hazard t"]
  by (simp add: scaled_hazard_def min_def)

lemma scaled_hazard_mono_age:
  "0 \<le> alpha \<Longrightarrow> 0 \<le> s \<Longrightarrow> s \<le> t \<Longrightarrow> scaled_hazard s alpha \<le> scaled_hazard t alpha"
  using baseline_hazard_mono [of s t]
    mult_left_mono [of "baseline_hazard s" "baseline_hazard t" alpha]
  by (simp add: scaled_hazard_def min_def)

lemma personalized_risk_range:
  "0 \<le> alpha \<Longrightarrow> 0 \<le> personalized_risk t alpha \<and> personalized_risk t alpha < 1"
  using scaled_hazard_nonneg [of alpha t] by (simp add: personalized_risk_exp)

lemma personalized_risk_mono_alpha:
  "a1 \<le> a2 \<Longrightarrow> personalized_risk t a1 \<le> personalized_risk t a2"
  using scaled_hazard_mono_alpha [of a1 a2 t] by (simp add: personalized_risk_exp)

lemma conditional_risk_exp:
  "conditional_risk s t alpha = 1 - exp (- (scaled_hazard t alpha - scaled_hazard s alpha))"
proof -
  have "conditional_risk s t alpha =
      (exp (- scaled_hazard s alpha) - exp (- scaled_hazard t alpha)) / exp (- scaled_hazard s alpha)"
    by (simp add: conditional_risk_def personalized_risk_exp Let_def)
  also have "\<dots> = 1 - exp (- scaled_hazard t alpha) / exp (- scaled_hazard s alpha)"
    by (simp add: diff_divide_distrib)
  also have "\<dots> = 1 - exp (- (scaled_hazard t alpha - scaled_hazard s alpha))"
    by (simp add: exp_diff [symmetric])
  finally show ?thesis .
qed

lemma conditional_risk_same: "conditional_risk t t alpha = 0"
  by (simp add: conditional_risk_exp)

lemma conditional_risk_nonneg:
  "0 \<le> alpha \<Longrightarrow> 0 \<le> s \<Longrightarrow> s \<le> t \<Longrightarrow> 0 \<le> conditional_risk s t alpha"
  using scaled_hazard_mono_age [of alpha s t] by (simp add: conditional_risk_exp)

text \<open>
  C7. For every age \<open>s \<ge> 0\<close> and multiplier \<open>alpha > 0\<close> the conditional risk over the
  empty horizon from \<open>s\<close> to \<open>s\<close> is 0, and the conditional risk from \<open>s\<close> to any later
  age is non-negative.
\<close>

theorem conditional_risk_zero_width_and_nonneg:
  "0 \<le> s \<Longrightarrow> 0 < alpha \<Longrightarrow>
     conditional_risk s s alpha = 0 \<and> (\<forall>t. s \<le> t \<longrightarrow> 0 \<le> conditional_risk s t alpha)"
  by (simp add: conditional_risk_same conditional_risk_nonneg)

theorem conditional_risk_zero_width_and_nonneg_witness:
  "(0::real) \<le> 50 \<and> (0::real) < 2 \<and> (50::real) \<le> 55 \<and>
   conditional_risk 50 50 2 = 0 \<and> 0 \<le> conditional_risk 50 55 2"
  using conditional_risk_zero_width_and_nonneg [of 50 2] by simp

subsection \<open>Numeric bounds on the hazard at ages 50, 55, 90 and 100\<close>


lemma exp_03_lower: "269 / 200 \<le> exp (3 / 10 :: real)"
  using exp_lower_Taylor_quadratic [of "3 / 10"] by (simp add: power2_eq_square)



lemma exp_27_eq: "exp (27 :: real) = exp (3 / 10) ^ 90"
proof -
  have "exp (27 :: real) = exp (of_nat 90 * (3 / 10))" by simp
  also have "\<dots> = exp (3 / 10) ^ 90" by (rule exp_of_nat_mult)
  finally show ?thesis .
qed

lemma exp_nat_le: "exp (real n) \<le> 3 ^ n"
proof -
  have "exp (real n) = exp (of_nat n * (1::real))" by simp
  also have "\<dots> = exp 1 ^ n" by (rule exp_of_nat_mult)
  also have "\<dots> \<le> 3 ^ n" using exp_le by (intro power_mono) simp_all
  finally show ?thesis .
qed

lemma raw_hazard_100: "50 < raw_hazard 100"
proof -
  have "(50::real) < A * 10000 * (269 / 200) ^ 90"
    by (simp add: A_val power_divide)
  also have "\<dots> \<le> A * 10000 * exp (3 / 10) ^ 90"
    using exp_03_lower A_pos by (intro mult_left_mono power_mono) simp_all
  also have "\<dots> = raw_hazard 100"
    by (simp add: raw_hazard_def b12_val exp_27_eq)
  finally show ?thesis .
qed

lemma baseline_hazard_100: "baseline_hazard 100 = 50"
  using raw_hazard_100 by (simp add: baseline_hazard_min)





lemma raw_hazard_le_pow:
  assumes "0 \<le> t" "b12 * t \<le> real n"
  shows "raw_hazard t \<le> A * t ^ 2 * 3 ^ n"
proof -
  have "exp (b12 * t) \<le> exp (real n)" using assms by simp
  also have "\<dots> \<le> 3 ^ n" by (rule exp_nat_le)
  finally have "exp (b12 * t) \<le> 3 ^ n" .
  then have "(A * t ^ 2) * exp (b12 * t) \<le> (A * t ^ 2) * 3 ^ n"
    using A_pos by (intro mult_left_mono) simp_all
  then show ?thesis by (simp add: raw_hazard_def)
qed

lemma baseline_hazard_50_small: "baseline_hazard 50 < 1"
proof -
  have "raw_hazard 50 \<le> A * 50 ^ 2 * 3 ^ 14"
    by (rule raw_hazard_le_pow) (simp_all add: b12_val)
  also have "\<dots> < 1" by (simp add: A_val)
  finally show ?thesis by (simp add: baseline_hazard_min)
qed

lemma baseline_hazard_55_small: "baseline_hazard 55 < 1"
proof -
  have "raw_hazard 55 \<le> A * 55 ^ 2 * 3 ^ 15"
    by (rule raw_hazard_le_pow) (simp_all add: b12_val)
  also have "\<dots> < 1" by (simp add: A_val)
  finally show ?thesis by (simp add: baseline_hazard_min)
qed

subsection \<open>Dependence on the multiplier\<close>

lemma scaled_hazard_100: "1 \<le> alpha \<Longrightarrow> scaled_hazard 100 alpha = 50"
  by (simp add: scaled_hazard_def baseline_hazard_100)

lemma scaled_hazard_uncapped:
  "alpha * baseline_hazard t \<le> 50 \<Longrightarrow> scaled_hazard t alpha = alpha * baseline_hazard t"
  by (simp add: scaled_hazard_def)

lemma personalized_risk_le_1: "0 \<le> alpha \<Longrightarrow> personalized_risk t alpha \<le> 1"
  using personalized_risk_range [of alpha t] by simp

lemma scaled_hazard_at_cap: "50 \<le> alpha * baseline_hazard t \<Longrightarrow> scaled_hazard t alpha = 50"
  by (simp add: scaled_hazard_def)

lemma personalized_risk_at_cap:
  "50 \<le> alpha * baseline_hazard t \<Longrightarrow> personalized_risk t alpha = 1 - exp (- 50)"
  by (simp add: personalized_risk_exp scaled_hazard_at_cap)

lemma cap_upward:
  assumes "0 \<le> (h::real)" "a \<le> a'" "50 \<le> a * h"
  shows "50 \<le> a' * h"
proof -
  have "a * h \<le> a' * h" using assms by (intro mult_right_mono) simp_all
  then show ?thesis using assms by linarith
qed

lemma personalized_risk_const_at_cap:
  assumes "alpha \<le> alpha'" "50 \<le> alpha * baseline_hazard t"
  shows "personalized_risk t alpha' = personalized_risk t alpha"
proof -
  have "50 \<le> alpha' * baseline_hazard t"
    using baseline_hazard_nonneg [of t] assms by (rule cap_upward)
  then show ?thesis using assms by (simp add: personalized_risk_at_cap)
qed

text \<open>
  C5, as the claim states it, fails: at age 100 the baseline hazard is already capped at
  50, so the multipliers 1 and 2 give the same personalised risk.
\<close>

theorem personalized_risk_not_strict_at_cap:
  "\<not> personalized_risk 100 1 < personalized_risk 100 2"
  by (simp add: personalized_risk_exp scaled_hazard_100)

text \<open>
  C5, amended. For every age \<open>t \<ge> 0\<close> and multiplier \<open>alpha > 0\<close> the personalised risk
  lies in \<open>[0, 1]\<close> and is non-decreasing in the multiplier. It is not strictly
  increasing: from the point where \<open>alpha * H0(t)\<close> reaches the cap of 50 it no longer
  depends on the multiplier and equals \<open>1 - exp (-50)\<close>, the expression that double
  precision evaluates to \<open>1.0\<close>.
\<close>

theorem personalized_risk_range_mono_cap:
  "0 \<le> t \<Longrightarrow> 0 < alpha \<Longrightarrow>
     0 \<le> personalized_risk t alpha \<and> personalized_risk t alpha \<le> 1 \<and>
     (\<forall>alpha'. alpha \<le> alpha' \<longrightarrow> personalized_risk t alpha \<le> personalized_risk t alpha') \<and>
     (\<forall>alpha'. alpha \<le> alpha' \<and> 50 \<le> alpha * baseline_hazard t \<longrightarrow>
        personalized_risk t alpha' = personalized_risk t alpha \<and>
        personalized_risk t alpha = 1 - exp (- 50))"
proof -
  assume "0 \<le> t" and pos: "0 < alpha"
  have "0 \<le> personalized_risk t alpha \<and> personalized_risk t alpha \<le> 1"
    using personalized_risk_range [of alpha t] pos by simp
  moreover have "\<forall>alpha'. alpha \<le> alpha' \<longrightarrow> personalized_risk t alpha \<le> personalized_risk t alpha'"
    by (simp add: personalized_risk_mono_alpha)
  moreover have "\<forall>alpha'. alpha \<le> alpha' \<and> 50 \<le> alpha * baseline_hazard t \<longrightarrow>
        personalized_risk t alpha' = personalized_risk t alpha \<and>
        personalized_risk t alpha = 1 - exp (- 50)"
    using personalized_risk_const_at_cap [of alpha _ t] personalized_risk_at_cap [of alpha t]
    by blast
  ultimately show ?thesis by blast
qed

theorem personalized_risk_range_mono_cap_witness:
  "(0::real) \<le> 100 \<and> (0::real) < 1 \<and> (1::real) \<le> 2 \<and> 50 \<le> 1 * baseline_hazard 100 \<and>
   0 \<le> personalized_risk 100 1 \<and> personalized_risk 100 1 \<le> 1 \<and>
   personalized_risk 100 1 \<le> personalized_risk 100 2 \<and>
   personalized_risk 100 2 = personalized_risk 100 1 \<and>
   personalized_risk 100 1 = 1 - exp (- 50)"
proof -
  have age: "(0::real) \<le> 100" and pos: "(0::real) < 1" and le: "(1::real) \<le> 2" by simp_all
  have cap: "50 \<le> 1 * baseline_hazard 100" by (simp add: baseline_hazard_100)
  show ?thesis
    using personalized_risk_range_mono_cap [OF age pos] age pos le cap by blast
qed






text \<open>
  In exact arithmetic the conditional risk is non-decreasing in the multiplier as long as
  \<open>alpha * H0(t)\<close> stays within the cap. In double precision the risk at the current age
  is \<open>1.0\<close> well before the cap, the guard then returns 0, and the quotient of two
  differences of rounded values is not monotone near that point, so this fact is about the
  formula and is not part of the amended statement above.
\<close>

lemma conditional_risk_mono_uncapped:
  assumes "0 \<le> s" "s \<le> t" "0 < a1" "a1 \<le> a2" "a2 * baseline_hazard t \<le> 50"
  shows "conditional_risk s t a1 \<le> conditional_risk s t a2"
proof -
  have st: "baseline_hazard s \<le> baseline_hazard t"
    using assms by (simp add: baseline_hazard_mono)
  have a2s: "a2 * baseline_hazard s \<le> 50"
  proof -
    have "a2 * baseline_hazard s \<le> a2 * baseline_hazard t"
      using st assms by (intro mult_left_mono) simp_all
    then show ?thesis using assms by linarith
  qed
  have a1t: "a1 * baseline_hazard t \<le> 50"
  proof -
    have "a1 * baseline_hazard t \<le> a2 * baseline_hazard t"
      using assms baseline_hazard_nonneg [of t] by (intro mult_right_mono) simp_all
    then show ?thesis using assms by linarith
  qed
  have a1s: "a1 * baseline_hazard s \<le> 50"
  proof -
    have "a1 * baseline_hazard s \<le> a1 * baseline_hazard t"
      using st assms by (intro mult_left_mono) simp_all
    then show ?thesis using a1t by linarith
  qed
  have "a1 * (baseline_hazard t - baseline_hazard s) \<le> a2 * (baseline_hazard t - baseline_hazard s)"
    using st assms by (intro mult_right_mono) simp_all
  then show ?thesis
    using assms a2s a1t a1s
    by (simp add: conditional_risk_exp scaled_hazard_uncapped right_diff_distrib)
qed

subsection \<open>Incidence lookup\<close>

lemma get_seer_incidence_find:
  "get_seer_incidence table t sex_bin = spec_lookup table t sex_bin"
proof (induction table)
  case Nil
  show ?case by (simp add: spec_lookup_def)
next
  case (Cons row rest)
  then show ?case
    by (cases "Age_Group row") (simp add: spec_lookup_def band_contains_def)
qed

lemma calibrate_log_alpha_uncovered:
  "find (band_contains t) table = None \<Longrightarrow>
     calibrate_log_alpha table t sex_bin = Inl (ValueError ''Age not covered in SEER table'')"
  by (simp add: calibrate_log_alpha_def get_seer_incidence_find spec_lookup_def)

text \<open>
  C8. For every table, age and sex indicator the lookup returns the rate of the first band,
  in table order, whose inclusive range contains the age (male column for indicator 1,
  female column otherwise) and raises its error when there is none; in that case the
  calibration raises the same error.
\<close>

theorem get_seer_incidence_first_band:
  "get_seer_incidence table t sex_bin =
     (case find (band_contains t) table of
        None \<Rightarrow> Inl (ValueError ''Age not covered in SEER table'')
      | Some row \<Rightarrow> Inr (if sex_bin = 1 then Male_Rate row else Female_Rate row)) \<and>
   (find (band_contains t) table = None \<longrightarrow>
      calibrate_log_alpha table t sex_bin = Inl (ValueError ''Age not covered in SEER table''))"
  using get_seer_incidence_find [of table t sex_bin] calibrate_log_alpha_uncovered [of t table sex_bin]
  by (simp add: spec_lookup_def)

theorem get_seer_incidence_first_band_witness:
  "find (band_contains 150) example_table = None \<and>
   get_seer_incidence example_table 150 1 = Inl (ValueError ''Age not covered in SEER table'') \<and>
   calibrate_log_alpha example_table 150 1 = Inl (ValueError ''Age not covered in SEER table'')"
proof -
  have none: "find (band_contains 150) example_table = None"
    by (simp add: example_table_def band_contains_def)
  show ?thesis
    using get_seer_incidence_first_band [of example_table 150 1] none by simp
qed

subsection \<open>Calibration\<close>

lemma spec_interval_Suc_below:
  "spec_interval t target k = (lo, hi) \<Longrightarrow> model_5yr_at t ((lo + hi) / 2) < target \<Longrightarrow>
     spec_interval t target (Suc k) = ((lo + hi) / 2, hi)"
  by simp

lemma spec_interval_Suc_above:
  "spec_interval t target k = (lo, hi) \<Longrightarrow> \<not> model_5yr_at t ((lo + hi) / 2) < target \<Longrightarrow>
     spec_interval t target (Suc k) = (lo, (lo + hi) / 2)"
  by simp

lemma spec_mid_eq: "spec_interval t target k = (lo, hi) \<Longrightarrow> spec_mid t target k = (lo + hi) / 2"
  by (simp add: spec_mid_def)

lemma upt_step: "[k ..< k + Suc n] = k # [Suc k ..< Suc k + n]"
  by (simp add: upt_conv_Cons)

lemma find_upt_hit: "P k \<Longrightarrow> find P [k ..< k + Suc n] = Some k"
  unfolding upt_step by simp

lemma find_upt_miss: "\<not> P k \<Longrightarrow> find P [k ..< k + Suc n] = find P [Suc k ..< Suc k + n]"
  unfolding upt_step by simp

lemma bisection_loop_step_hit:
  "spec_interval t target k = (lo, hi) \<Longrightarrow> spec_hit t target k \<Longrightarrow>
     bisection_loop (Suc n) t target lo hi m = Inl (spec_mid t target k)"
  by (simp add: spec_hit_def spec_mid_def model_5yr_at_def Let_def)

lemma bisection_loop_step_miss:
  "spec_interval t target k = (lo, hi) \<Longrightarrow> \<not> spec_hit t target k \<Longrightarrow>
     bisection_loop (Suc n) t target lo hi m =
       bisection_loop n t target (fst (spec_interval t target (Suc k)))
         (snd (spec_interval t target (Suc k))) (Some (spec_mid t target k))"
  by (simp add: spec_hit_def spec_mid_def model_5yr_at_def Let_def)

lemma bisection_loop_hit:
  "spec_interval t target k = (lo, hi) \<Longrightarrow> find (spec_hit t target) [k ..< k + n] = Some j \<Longrightarrow>
     bisection_loop n t target lo hi m = Inl (spec_mid t target j)"
proof (induction n arbitrary: k lo hi m)
  case 0
  then show ?case by simp
next
  case (Suc n)
  show ?case
  proof (cases "spec_hit t target k")
    case True
    then have "find (spec_hit t target) [k ..< k + Suc n] = Some k"
      by (rule find_upt_hit)
    then have "j = k" using Suc.prems(2) by simp
    then show ?thesis
      using bisection_loop_step_hit [OF Suc.prems(1) True] by simp
  next
    case False
    then have "find (spec_hit t target) [Suc k ..< Suc k + n] = Some j"
      using Suc.prems(2) find_upt_miss [of "spec_hit t target" k n] by simp
    then have "bisection_loop n t target (fst (spec_interval t target (Suc k)))
         (snd (spec_interval t target (Suc k))) (Some (spec_mid t target k)) = Inl (spec_mid t target j)"
      by (intro Suc.IH [of "Suc k"]) simp_all
    then show ?thesis
      using bisection_loop_step_miss [OF Suc.prems(1) False] by simp
  qed
qed

lemma bisection_loop_miss:
  "spec_interval t target k = (lo, hi) \<Longrightarrow> find (spec_hit t target) [k ..< k + n] = None \<Longrightarrow>
     bisection_loop n t target lo hi m =
       Inr (fst (spec_interval t target (k + n)), snd (spec_interval t target (k + n)),
            if n = 0 then m else Some (spec_mid t target (k + n - 1)))"
proof (induction n arbitrary: k lo hi m)
  case 0
  then show ?case by simp
next
  case (Suc n)
  have nohit: "\<not> spec_hit t target k"
  proof
    assume "spec_hit t target k"
    then have "find (spec_hit t target) [k ..< k + Suc n] = Some k"
      by (rule find_upt_hit)
    then show False using Suc.prems(2) by simp
  qed
  then have rest: "find (spec_hit t target) [Suc k ..< Suc k + n] = None"
    using Suc.prems(2) find_upt_miss [of "spec_hit t target" k n] by simp
  have "bisection_loop n t target (fst (spec_interval t target (Suc k)))
         (snd (spec_interval t target (Suc k))) (Some (spec_mid t target k)) =
       Inr (fst (spec_interval t target (Suc k + n)), snd (spec_interval t target (Suc k + n)),
            if n = 0 then Some (spec_mid t target k) else Some (spec_mid t target (Suc k + n - 1)))"
    using rest by (intro Suc.IH [of "Suc k"]) simp_all
  moreover have "(if n = 0 then Some (spec_mid t target k) else Some (spec_mid t target (Suc k + n - 1)))
      = Some (spec_mid t target (k + Suc n - 1))"
    by simp
  ultimately show ?case
    using bisection_loop_step_miss [OF Suc.prems(1) nohit, of n m] by simp
qed

lemma calibrate_log_alpha_spec:
  assumes "get_seer_incidence table t sex_bin = Inr rate"
  shows "calibrate_log_alpha table t sex_bin = Inr (spec_calibrate t rate)"
proof -
  have start: "spec_interval t (spec_target rate) 0 = (- 5, 2)" by simp
  have unf: "calibrate_log_alpha table t sex_bin =
        (case bisection_loop 100 t (spec_target rate) (- 5) 2 None of
           Inl mid \<Rightarrow> Inr mid
         | Inr (low, high, Some mid) \<Rightarrow> Inr mid
         | Inr (low, high, None) \<Rightarrow> Inl (UnboundLocalError ''mid''))"
    using assms by (simp add: calibrate_log_alpha_def spec_target_def)
  show ?thesis
  proof (cases "find (spec_hit t (spec_target rate)) [0 ..< 0 + 100]")
    case None
    have "bisection_loop 100 t (spec_target rate) (- 5) 2 None =
        Inr (fst (spec_interval t (spec_target rate) (0 + 100)),
             snd (spec_interval t (spec_target rate) (0 + 100)),
             if (100::nat) = 0 then None else Some (spec_mid t (spec_target rate) (0 + 100 - 1)))"
      using start None by (rule bisection_loop_miss)
    then have "bisection_loop 100 t (spec_target rate) (- 5) 2 None =
        Inr (fst (spec_interval t (spec_target rate) (0 + 100)),
             snd (spec_interval t (spec_target rate) (0 + 100)),
             Some (spec_mid t (spec_target rate) 99))"
      by simp
    moreover have "find (spec_hit t (spec_target rate)) [0 ..< 100] = None"
      using None by simp
    ultimately show ?thesis
      unfolding unf spec_calibrate_def by (simp only: option.case sum.case prod.case)
  next
    case (Some j)
    have "bisection_loop 100 t (spec_target rate) (- 5) 2 None = Inl (spec_mid t (spec_target rate) j)"
      using start Some by (rule bisection_loop_hit)
    moreover have "find (spec_hit t (spec_target rate)) [0 ..< 100] = Some j"
      using Some by simp
    ultimately show ?thesis
      unfolding unf spec_calibrate_def by (simp only: option.case sum.case prod.case)
  qed
qed

text \<open>
  C1. For an age the table covers, with annual rate \<open>rate\<close>, the calibration returns,
  without an error, the result of bisection on \<open>[-5, 2]\<close> against the target
  \<open>1 - exp (-5 * rate / 100000)\<close>: the midpoint of the first of at most 100 iterations
  whose model risk is within \<open>1e-4\<close> of the target, the interval being narrowed from
  below when the model risk is under the target and from above otherwise, and the
  midpoint of the hundredth iteration when no iteration meets the tolerance.
\<close>

theorem calibrate_log_alpha_bisection:
  "get_seer_incidence table t sex_bin = Inr rate \<Longrightarrow>
     calibrate_log_alpha table t sex_bin =
       Inr (case find (spec_hit t (1 - exp (- 5 * rate / 100000))) [0 ..< 100] of
              Some k \<Rightarrow> spec_mid t (1 - exp (- 5 * rate / 100000)) k
            | None \<Rightarrow> spec_mid t (1 - exp (- 5 * rate / 100000)) 99)"
  using calibrate_log_alpha_spec [of table t sex_bin rate]
  by (simp only: spec_calibrate_def spec_target_def)

theorem calibrate_log_alpha_bisection_witness:
  "get_seer_incidence example_table 50 1 = Inr 120 \<and>
   calibrate_log_alpha example_table 50 1 =
       Inr (case find (spec_hit 50 (1 - exp (- 5 * 120 / 100000))) [0 ..< 100] of
              Some k \<Rightarrow> spec_mid 50 (1 - exp (- 5 * 120 / 100000)) k
            | None \<Rightarrow> spec_mid 50 (1 - exp (- 5 * 120 / 100000)) 99)"
proof -
  have cov: "get_seer_incidence example_table 50 1 = Inr 120"
    by (simp add: example_table_def)
  show ?thesis
    using calibrate_log_alpha_bisection [OF cov] cov by (simp only: simp_thms)
qed

subsection \<open>The personalised multiplier\<close>


lemma dom_norm_coeff: "dom (norm_coeff coeff r) = dom coeff"
  by (auto simp: norm_coeff_def dom_def)

lemma alpha_loop_Cons:
  "alpha_loop nc ((feature, v) # rest) la =
     (case feature_term nc feature v of
        Inl e \<Rightarrow> Inl e
      | Inr d \<Rightarrow> alpha_loop nc rest (la + d))"
  by (simp add: feature_term_def split: option.splits)

lemma feature_term_total:
  assumes "feature \<in> dom nc \<longrightarrow> feature \<in> dom clinical_scale"
  shows "\<exists>d. feature_term nc feature v = Inr d"
proof (cases "nc feature")
  case None
  then show ?thesis by (simp add: feature_term_def)
next
  case (Some w)
  then have "feature \<in> dom clinical_scale" using assms by auto
  then obtain s where "clinical_scale feature = Some s" by auto
  then show ?thesis using Some by (auto simp: feature_term_def)
qed

lemma alpha_loop_total:
  "dom nc \<inter> fst ` set fs \<subseteq> dom clinical_scale \<Longrightarrow> \<exists>x. alpha_loop nc fs la = Inr x"
proof (induction fs arbitrary: la)
  case Nil
  show ?case by simp
next
  case (Cons p fs)
  obtain feature v where p: "p = (feature, v)" by (cases p)
  have "feature \<in> dom nc \<longrightarrow> feature \<in> dom clinical_scale"
    using Cons.prems p by auto
  then obtain d where d: "feature_term nc feature v = Inr d"
    using feature_term_total by blast
  have rest: "dom nc \<inter> fst ` set fs \<subseteq> dom clinical_scale"
    using Cons.prems by auto
  show ?case
    using Cons.IH [OF rest, of "la + d"] by (simp only: p alpha_loop_Cons d sum.case)
qed

lemma alpha_loop_shift:
  "alpha_loop nc fs la = Inr x \<Longrightarrow> alpha_loop nc fs (la + e) = Inr (x + e)"
proof (induction fs arbitrary: la)
  case Nil
  then show ?case by simp
next
  case (Cons p fs)
  obtain feature v where p: "p = (feature, v)" by (cases p)
  show ?case
  proof (cases "feature_term nc feature v")
    case (Inl err)
    then show ?thesis using Cons.prems by (simp only: p alpha_loop_Cons sum.case) simp
  next
    case (Inr d)
    then have "alpha_loop nc fs (la + d) = Inr x"
      using Cons.prems by (simp only: p alpha_loop_Cons sum.case)
    then have "alpha_loop nc fs (la + d + e) = Inr (x + e)" by (rule Cons.IH)
    moreover have "la + e + d = la + d + e" by simp
    ultimately show ?thesis using Inr by (simp only: p alpha_loop_Cons sum.case)
  qed
qed

lemma alpha_loop_append:
  "alpha_loop nc (xs @ ys) la =
     (case alpha_loop nc xs la of Inl e \<Rightarrow> Inl e | Inr x \<Rightarrow> alpha_loop nc ys x)"
proof (induction xs arbitrary: la)
  case Nil
  show ?case by simp
next
  case (Cons p xs)
  obtain feature v where p: "p = (feature, v)" by (cases p)
  show ?case
  proof (cases "feature_term nc feature v")
    case (Inl err)
    then show ?thesis by (simp only: p append_Cons alpha_loop_Cons sum.case)
  next
    case (Inr d)
    then show ?thesis using Cons.IH [of "la + d"] by (simp only: p append_Cons alpha_loop_Cons sum.case)
  qed
qed


lemma compute_alpha_eq:
  "coeff ''APC_mut'' = Some r \<Longrightarrow> alpha_loop (norm_coeff coeff r) fs lab = Inr x \<Longrightarrow>
     compute_alpha coeff fs lab = Inr (max (min (exp x) 5) (1 / 100))"
  by (simp add: compute_alpha_def)


text \<open>
  The side condition of the next theorem is what keeps \<open>clinical_scale[feature]\<close> from
  raising: a feature that the coefficient table knows and the scale table does not makes
  \<open>compute_alpha\<close> fail with \<open>KeyError\<close>.
\<close>

lemma compute_alpha_unrecognised_feature:
  "compute_alpha (map_of [(''APC_mut'', 1), (''Age'', 1 / 10)]) [(''Age'', 50)] 0 =
     Inl (KeyError ''Age'')"
  by (simp add: compute_alpha_def norm_coeff_def clinical_scale_def)



subsection \<open>The normalisation by the APC coefficient\<close>

lemma norm_coeff_Some: "coeff f = Some v \<Longrightarrow> norm_coeff coeff r f = Some (\<bar>v\<bar> / r)"
  by (simp add: norm_coeff_def)

text \<open>
  C4. The weights are \<open>coeff.abs() / ref_coef\<close>: the magnitude is taken of the numerator
  only. With the APC entry \<open>-2\<close> and the BMI entry \<open>0.05\<close> the weight of BMI is \<open>-0.025\<close>,
  which is neither \<open>|0.05| / |-2|\<close> nor non-negative.
\<close>

theorem norm_coeff_negative_reference:
  "coeff_neg_apc ''APC_mut'' = Some (- 2) \<and> coeff_neg_apc ''BMI'' = Some (1 / 20) \<and>
   norm_coeff coeff_neg_apc (- 2) ''BMI'' = Some (- (1 / 40)) \<and>
   norm_coeff coeff_neg_apc (- 2) ''BMI'' \<noteq> Some (\<bar>1 / 20\<bar> / \<bar>- 2\<bar>)"
  by (simp add: coeff_neg_apc_def norm_coeff_def)

text \<open>
  For a positive APC coefficient the weight is the quotient of the two magnitudes and is
  non-negative; the divergence above is confined to a negative reference.
\<close>

lemma norm_coeff_positive_reference:
  "coeff ''APC_mut'' = Some r \<Longrightarrow> 0 < r \<Longrightarrow> coeff f = Some v \<Longrightarrow>
     norm_coeff coeff r f = Some (\<bar>v\<bar> / \<bar>r\<bar>) \<and> 0 \<le> \<bar>v\<bar> / \<bar>r\<bar>"
  by (simp add: norm_coeff_Some)

lemma norm_coeff_negative_sign:
  "coeff ''APC_mut'' = Some r \<Longrightarrow> r < 0 \<Longrightarrow> coeff f = Some v \<Longrightarrow> v \<noteq> 0 \<Longrightarrow>
     norm_coeff coeff r f = Some (- (\<bar>v\<bar> / \<bar>r\<bar>)) \<and> - (\<bar>v\<bar> / \<bar>r\<bar>) < 0"
  by (simp add: norm_coeff_Some divide_pos_neg)

subsection \<open>Sex asymmetry\<close>

lemma feature_term_male: "feature_term nc ''Sex_bin'' 1 = Inr 0"
  by (simp add: feature_term_def split: option.splits)

lemma clinical_scale_sex: "clinical_scale ''Sex_bin'' = Some (1 / 10)"
  by (simp add: clinical_scale_def)

lemma feature_term_female:
  assumes "0 < r"
  shows "\<exists>d. 0 \<le> d \<and> feature_term (norm_coeff coeff r) ''Sex_bin'' 0 = Inr (- d)"
proof (cases "coeff ''Sex_bin''")
  case None
  then have "feature_term (norm_coeff coeff r) ''Sex_bin'' 0 = Inr (- 0)"
    by (simp add: feature_term_def norm_coeff_def)
  then show ?thesis by blast
next
  case (Some v)
  have w: "0 \<le> \<bar>v\<bar> / r" using assms by simp
  have "feature_term (norm_coeff coeff r) ''Sex_bin'' 0 = Inr (- min (1 / 10 * (\<bar>v\<bar> / r)) (3 / 10))"
    using Some by (simp add: feature_term_def norm_coeff_def clinical_scale_sex)
  moreover have "0 \<le> min (1 / 10 * (\<bar>v\<bar> / r)) (3 / 10)"
    using w by simp
  ultimately show ?thesis by blast
qed

lemma clamp_mono: "(x::real) \<le> y \<Longrightarrow> max (min x 5) (1 / 100) \<le> max (min y 5) (1 / 100)"
  by (simp add: max_def min_def)

lemma exp_fiftieth_bounds: "(1::real) < exp (1 / 50) \<and> exp (1 / 50 :: real) \<le> 5"
proof -
  have "exp (1 / 50 :: real) \<le> exp 1" by simp
  also have "\<dots> \<le> 3" by (rule exp_le)
  finally show ?thesis by simp
qed

lemma alpha_loop_neg_female:
  "alpha_loop (norm_coeff coeff_neg_apc (- 2)) (features_with_sex 0) 0 = Inr (1 / 50)"
  by (simp add: features_with_sex_def coeff_neg_apc_def norm_coeff_def clinical_scale_def)

lemma alpha_loop_neg_male:
  "alpha_loop (norm_coeff coeff_neg_apc (- 2)) (features_with_sex 1) 0 = Inr 0"
  by (simp add: features_with_sex_def coeff_neg_apc_def norm_coeff_def clinical_scale_def)

lemma coeff_neg_apc_ref: "coeff_neg_apc ''APC_mut'' = Some (- 2)"
  by (simp add: coeff_neg_apc_def)

text \<open>
  C9. With the APC entry \<open>-2\<close> the weight of the sex indicator is negative, so the
  subtraction for the female case adds: on feature sets that differ in the sex indicator
  only, the female case gets \<open>exp 0.02\<close> and the male case gets 1.
\<close>

theorem compute_alpha_female_above_male:
  "compute_alpha coeff_neg_apc (features_with_sex 0) 0 = Inr (exp (1 / 50)) \<and>
   compute_alpha coeff_neg_apc (features_with_sex 1) 0 = Inr 1 \<and>
   (1::real) < exp (1 / 50)"
  using compute_alpha_eq [OF coeff_neg_apc_ref alpha_loop_neg_female]
    compute_alpha_eq [OF coeff_neg_apc_ref alpha_loop_neg_male] exp_fiftieth_bounds
  by (simp add: max_def min_def)

text \<open>
  For a positive APC coefficient the female case never exceeds the male case, whatever the
  other features and the base log-multiplier are; the divergence above is confined to a
  negative reference.
\<close>

lemma compute_alpha_female_le_male_positive_reference:
  assumes apc: "coeff ''APC_mut'' = Some r" and pos: "0 < r"
    and known: "dom coeff \<inter> fst ` set (pre @ post) \<subseteq> dom clinical_scale"
  shows "\<exists>af am. compute_alpha coeff (pre @ (''Sex_bin'', 0) # post) lab = Inr af \<and>
                  compute_alpha coeff (pre @ (''Sex_bin'', 1) # post) lab = Inr am \<and> af \<le> am"
proof -
  let ?nc = "norm_coeff coeff r"
  have dpre: "dom ?nc \<inter> fst ` set pre \<subseteq> dom clinical_scale"
    using known by (auto simp: dom_norm_coeff)
  have dpost: "dom ?nc \<inter> fst ` set post \<subseteq> dom clinical_scale"
    using known by (auto simp: dom_norm_coeff)
  obtain x where x: "alpha_loop ?nc pre lab = Inr x"
    using alpha_loop_total [OF dpre] by blast
  obtain y where y: "alpha_loop ?nc post x = Inr y"
    using alpha_loop_total [OF dpost] by blast
  obtain e where e: "0 \<le> e" "feature_term ?nc ''Sex_bin'' 0 = Inr (- e)"
    using feature_term_female [OF pos] by blast
  have male: "alpha_loop ?nc (pre @ (''Sex_bin'', 1) # post) lab = Inr y"
    using y by (simp only: alpha_loop_append x sum.case alpha_loop_Cons feature_term_male) simp
  have "alpha_loop ?nc post (x + - e) = Inr (y + - e)"
    using y by (rule alpha_loop_shift)
  then have female: "alpha_loop ?nc (pre @ (''Sex_bin'', 0) # post) lab = Inr (y + - e)"
    by (simp only: alpha_loop_append x sum.case alpha_loop_Cons e(2))
  have "exp (y + - e) \<le> exp y" using e(1) by simp
  then have "max (min (exp (y + - e)) 5) (1 / 100) \<le> max (min (exp y) 5) (1 / 100)"
    by (rule clamp_mono)
  then show ?thesis
    using compute_alpha_eq [OF apc female] compute_alpha_eq [OF apc male] by blast
qed

subsection \<open>The response of \<open>predict_risk\<close>\<close>

lemma lower_examples: "lower ''Male'' = ''male''" "lower ''FEMALE'' \<noteq> ''male''"
  by code_simp+

lemma py_round_examples:
  "py_round (1237 / 1000) 2 = 124 / 100" "py_round (1 / 8) 2 = 12 / 100"
  "py_round (3 / 8) 2 = 38 / 100"
  by (simp_all add: py_round_def round_half_even_def Let_def)







end
